theory Spec2Isabelle
  imports Complex_Main
begin

section \<open>The quote-of-the-day script \<open>qod.py\<close>\<close>

text \<open>
  The script is fifteen lines run at module level: one \<open>requests.get\<close>, one \<open>res.json()\<close>,
  one branch on \<open>res.status_code\<close>, subscripts into the decoded body, one \<open>print\<close> of a
  string coloured by \<open>pyfancy\<close>. The model keeps that order. Every Python exception is a
  value \<open>Inl e\<close>; an exception nobody catches ends the run and is recorded in the field
  \<open>uncaught\<close>.
\<close>

subsection \<open>Python values and exceptions\<close>

text \<open>
  What \<open>res.json()\<close> can return: the Python image of a JSON document. A \<open>dict\<close> is the
  list of its items (its keys are always \<open>str\<close>), looked up with \<open>map_of\<close>. Numbers are
  never inspected by the script; only their type matters.
\<close>

datatype pyval =
    PyNone
  | PyBool bool
  | PyInt int
  | PyFloat real
  | PyStr string
  | PyList "pyval list"
  | PyDict "(string \<times> pyval) list"

text \<open>
  \<open>KeyError\<close> carries the key that was not found, as in Python. \<open>KeyError\<close> and
  \<open>IndexError\<close> are the two subclasses of Python's \<open>LookupError\<close>.
\<close>

datatype py_error =
    KeyError pyval
  | IndexError
  | TypeError
  | JSONDecodeError
  | RequestException string


definition and_then :: "py_error + 'a \<Rightarrow> ('a \<Rightarrow> py_error + 'b) \<Rightarrow> py_error + 'b" where
  "and_then m f = (case m of Inl e \<Rightarrow> Inl e | Inr x \<Rightarrow> f x)"

text \<open>\<open>v[k]\<close> for a \<open>str\<close> key \<open>k\<close>: only a dict accepts it.\<close>

definition getitem_str :: "pyval \<Rightarrow> string \<Rightarrow> py_error + pyval" where
  "getitem_str v k =
     (case v of
        PyDict kvs \<Rightarrow>
          (case map_of kvs k of None \<Rightarrow> Inl (KeyError (PyStr k)) | Some x \<Rightarrow> Inr x)
      | _ \<Rightarrow> Inl TypeError)"

text \<open>
  Where a sequence of \<open>len\<close> elements is read for the index \<open>i\<close>: Python counts a
  negative index from the end, and there is no position outside \<open>-len \<le> i < len\<close>.
\<close>

definition py_index :: "nat \<Rightarrow> int \<Rightarrow> nat option" where
  "py_index len i =
     (if 0 \<le> i \<and> i < int len then Some (nat i)
      else if i < 0 \<and> - int len \<le> i then Some (nat (int len + i))
      else None)"

text \<open>
  \<open>v[i]\<close> for an \<open>int\<close> index \<open>i\<close>. A list and a str raise \<open>IndexError\<close> out of range;
  a str yields a str of one character; a dict decoded from JSON has no \<open>int\<close> key;
  nothing else can be subscripted.
\<close>

definition getitem_int :: "pyval \<Rightarrow> int \<Rightarrow> py_error + pyval" where
  "getitem_int v i =
     (case v of
        PyDict kvs \<Rightarrow> Inl (KeyError (PyInt i))
      | PyList xs \<Rightarrow>
          (case py_index (length xs) i of
             None \<Rightarrow> Inl IndexError
           | Some j \<Rightarrow> Inr (xs ! j))
      | PyStr s \<Rightarrow>
          (case py_index (length s) i of
             None \<Rightarrow> Inl IndexError
           | Some j \<Rightarrow> Inr (PyStr [s ! j]))
      | _ \<Rightarrow> Inl TypeError)"

text \<open>
  \<open>a + b\<close> where one operand is known to be a \<open>str\<close>, the only use the script makes of
  \<open>+\<close>: two strs are concatenated, anything else raises \<open>TypeError\<close>.
\<close>

definition add_str :: "pyval \<Rightarrow> pyval \<Rightarrow> py_error + pyval" where
  "add_str a b =
     (case a of
        PyStr x \<Rightarrow> (case b of PyStr y \<Rightarrow> Inr (PyStr (x @ y)) | _ \<Rightarrow> Inl TypeError)
      | _ \<Rightarrow> Inl TypeError)"

subsection \<open>The two libraries\<close>

text \<open>
  \<open>requests\<close>: the network is a parameter \<open>net\<close> of the script, giving for a URL either the
  exception \<open>requests.get\<close> raises or the response. Of a response the script reads
  \<open>status_code\<close> and calls \<open>json()\<close>, here the field holding what that call returns or
  raises. The record is extensible: a response may carry anything else (headers, raw
  bytes), which the script never reads.
\<close>

record response =
  status_code :: int
  json :: "py_error + pyval"

text \<open>
  \<open>pyfancy\<close>: an object accumulating the text \<open>out\<close>; a colour method appends the ANSI
  code and its argument, \<open>get()\<close> appends the reset code. What the package does with an
  argument that is not a \<open>str\<close> differs between its releases (concatenation raises
  \<open>TypeError\<close>, \<open>%s\<close> formatting prints \<open>str(x)\<close>), so that is the parameter \<open>nonstr\<close>.
\<close>

definition esc :: string where
  "esc = [CHR 0x1B]"

definition pyfancy :: string where
  "pyfancy = []"

definition fancy_add ::
  "(pyval \<Rightarrow> py_error + string) \<Rightarrow> string \<Rightarrow> string \<Rightarrow> pyval \<Rightarrow> py_error + string" where
  "fancy_add nonstr code out addition =
     (case (case addition of PyStr s \<Rightarrow> Inr s | _ \<Rightarrow> nonstr addition) of
        Inl e \<Rightarrow> Inl e
      | Inr s \<Rightarrow> Inr (out @ esc @ ''['' @ code @ ''m'' @ s))"

definition green :: "(pyval \<Rightarrow> py_error + string) \<Rightarrow> string \<Rightarrow> pyval \<Rightarrow> py_error + string" where
  "green nonstr out addition = fancy_add nonstr ''32'' out addition"

definition red :: "(pyval \<Rightarrow> py_error + string) \<Rightarrow> string \<Rightarrow> pyval \<Rightarrow> py_error + string" where
  "red nonstr out addition = fancy_add nonstr ''31'' out addition"

definition get :: "string \<Rightarrow> string" where
  "get out = out @ esc @ ''[0m''"

subsection \<open>The process\<close>

text \<open>
  What the operating system hands to the process, none of which the script reads, and what
  a run leaves behind: the GET requests it issued (oldest first), the text written to
  standard output, and the exception that ended it, if any.
\<close>

record host =
  argv :: "string list"
  environ :: "(string \<times> string) list"
  files :: "(string \<times> string) list"

record run =
  gets :: "string list"
  stdout :: string
  uncaught :: "py_error option"

definition newline :: char where
  "newline = CHR 0x0A"

definition print :: "string \<Rightarrow> run \<Rightarrow> run" where
  "print s r = r\<lparr>stdout := stdout r @ s @ [newline]\<rparr>"

definition requests_get ::
  "(string \<Rightarrow> py_error + 'a response_scheme) \<Rightarrow> string \<Rightarrow> run \<Rightarrow> (py_error + 'a response_scheme) \<times> run" where
  "requests_get net u r = (net u, r\<lparr>gets := gets r @ [u]\<rparr>)"

text \<open>The interpreter's exit status: 1 after an uncaught exception, 0 otherwise.\<close>

definition exit_status :: "run \<Rightarrow> int" where
  "exit_status r = (case uncaught r of None \<Rightarrow> 0 | Some e \<Rightarrow> 1)"

subsection \<open>The script\<close>

definition url :: string where
  "url = ''https://quotes.rest/qod''"

text \<open>Line 11: \<open>data["contents"]["quotes"][0]["quote"]\<close>.\<close>

definition quote_expr :: "pyval \<Rightarrow> py_error + pyval" where
  "quote_expr data =
     and_then (getitem_str data ''contents'') (\<lambda>c.
     and_then (getitem_str c ''quotes'') (\<lambda>q.
     and_then (getitem_int q 0) (\<lambda>x.
     getitem_str x ''quote'')))"

text \<open>Line 12: \<open>data["contents"]["quotes"][0]["author"]\<close>.\<close>

definition author_expr :: "pyval \<Rightarrow> py_error + pyval" where
  "author_expr data =
     and_then (getitem_str data ''contents'') (\<lambda>c.
     and_then (getitem_str c ''quotes'') (\<lambda>q.
     and_then (getitem_int q 0) (\<lambda>x.
     getitem_str x ''author'')))"

text \<open>
  Lines 11 to 13 up to the argument of \<open>print\<close>:
  \<open>pyfancy().green(quote + " - " + author).get()\<close>.
\<close>

definition success_branch :: "(pyval \<Rightarrow> py_error + string) \<Rightarrow> pyval \<Rightarrow> py_error + string" where
  "success_branch nonstr data =
     and_then (quote_expr data) (\<lambda>quote.
     and_then (author_expr data) (\<lambda>author.
     and_then (add_str quote (PyStr '' - '')) (\<lambda>t.
     and_then (add_str t author) (\<lambda>line.
     and_then (green nonstr pyfancy line) (\<lambda>out.
     Inr (get out))))))"

text \<open>Line 15 up to the argument of \<open>print\<close>: \<open>pyfancy().red(data["error"]["message"]).get()\<close>.\<close>

definition error_branch :: "(pyval \<Rightarrow> py_error + string) \<Rightarrow> pyval \<Rightarrow> py_error + string" where
  "error_branch nonstr data =
     and_then (getitem_str data ''error'') (\<lambda>e.
     and_then (getitem_str e ''message'') (\<lambda>message.
     and_then (red nonstr pyfancy message) (\<lambda>out.
     Inr (get out))))"

text \<open>
  The whole script. An exception raised anywhere leaves the run as it is at that point
  and becomes its \<open>uncaught\<close> exception: there is no \<open>try\<close> in the source.
\<close>

definition qod ::
  "(pyval \<Rightarrow> py_error + string) \<Rightarrow> host \<Rightarrow> (string \<Rightarrow> py_error + 'a response_scheme) \<Rightarrow> run" where
  "qod nonstr h net =
     (case requests_get net url \<lparr>gets = [], stdout = [], uncaught = None\<rparr> of
        (Inl e, r) \<Rightarrow> r\<lparr>uncaught := Some e\<rparr>
      | (Inr res, r) \<Rightarrow>
          (case json res of
             Inl e \<Rightarrow> r\<lparr>uncaught := Some e\<rparr>
           | Inr data \<Rightarrow>
               if status_code res = 200 then
                 (case success_branch nonstr data of
                    Inl e \<Rightarrow> r\<lparr>uncaught := Some e\<rparr>
                  | Inr s \<Rightarrow> print s r)
               else
                 (case error_branch nonstr data of
                    Inl e \<Rightarrow> r\<lparr>uncaught := Some e\<rparr>
                  | Inr s \<Rightarrow> print s r)))"

subsection \<open>Sample runs\<close>

text \<open>
  Concrete surroundings on which the properties below are evaluated: a \<open>pyfancy\<close> release
  whose colour methods concatenate (so a non-str argument raises \<open>TypeError\<close>), a host,
  and decoded responses.
\<close>

definition strict :: "pyval \<Rightarrow> py_error + string" where
  "strict v = Inl TypeError"

definition bare_host :: host where
  "bare_host = \<lparr>argv = [''qod.py''], environ = [], files = []\<rparr>"

definition be_yourself :: response where
  "be_yourself =
     \<lparr>status_code = 200,
      json = Inr (PyDict [(''contents'', PyDict [(''quotes'',
               PyList [PyDict [(''quote'', PyStr ''Be yourself''),
                               (''author'', PyStr ''Oscar Wilde'')]])])])\<rparr>"

definition unavailable :: response where
  "unavailable =
     \<lparr>status_code = 500,
      json = Inr (PyDict [(''error'', PyDict [(''message'', PyStr ''Service unavailable'')])])\<rparr>"



definition empty_quotes :: response where
  "empty_quotes = \<lparr>status_code = 200, json = Inr (PyDict [(''contents'', PyDict [(''quotes'', PyList [])])])\<rparr>"

definition two_lines :: response where
  "two_lines =
     \<lparr>status_code = 200,
      json = Inr (PyDict [(''contents'', PyDict [(''quotes'',
               PyList [PyDict [(''quote'', PyStr (''Be'' @ [CHR 0x0A] @ ''yourself'')),
                               (''author'', PyStr ''Oscar Wilde'')]])])])\<rparr>"

definition not_json :: "int \<Rightarrow> response" where
  "not_json code = \<lparr>status_code = code, json = Inl JSONDecodeError\<rparr>"


definition refused :: "string \<Rightarrow> py_error + response" where
  "refused u = Inl (RequestException ''Connection refused'')"

text \<open>
  The newline-terminated lines of a text that ends with a newline are as many as its
  newline characters.
\<close>

definition line_count :: "string \<Rightarrow> nat" where
  "line_count s = count_list s newline"

section \<open>Properties\<close>

subsection \<open>Shared facts\<close>

lemma qod_request_failed:
  "net url = Inl e \<Longrightarrow>
   qod nonstr h net = \<lparr>gets = [url], stdout = [], uncaught = Some e\<rparr>"
  by (simp add: qod_def requests_get_def)

lemma qod_json_failed:
  "net url = Inr res \<Longrightarrow> json res = Inl e \<Longrightarrow>
   qod nonstr h net = \<lparr>gets = [url], stdout = [], uncaught = Some e\<rparr>"
  by (simp add: qod_def requests_get_def)

lemma qod_success:
  "net url = Inr res \<Longrightarrow> json res = Inr data \<Longrightarrow> status_code res = 200 \<Longrightarrow>
   qod nonstr h net =
     (case success_branch nonstr data of
        Inl e \<Rightarrow> \<lparr>gets = [url], stdout = [], uncaught = Some e\<rparr>
      | Inr s \<Rightarrow> \<lparr>gets = [url], stdout = s @ [newline], uncaught = None\<rparr>)"
  by (simp add: qod_def requests_get_def print_def split: sum.splits)

lemma qod_error:
  "net url = Inr res \<Longrightarrow> json res = Inr data \<Longrightarrow> status_code res \<noteq> 200 \<Longrightarrow>
   qod nonstr h net =
     (case error_branch nonstr data of
        Inl e \<Rightarrow> \<lparr>gets = [url], stdout = [], uncaught = Some e\<rparr>
      | Inr s \<Rightarrow> \<lparr>gets = [url], stdout = s @ [newline], uncaught = None\<rparr>)"
  by (simp add: qod_def requests_get_def print_def split: sum.splits)

lemma gets_qod: "gets (qod nonstr h net) = [url]"
  by (simp add: qod_def requests_get_def print_def split: sum.splits)

lemma success_branch_ok:
  assumes "map_of d ''contents'' = Some (PyDict c)"
    and "map_of c ''quotes'' = Some (PyList (PyDict q # rest))"
    and "map_of q ''quote'' = Some (PyStr quote)"
    and "map_of q ''author'' = Some (PyStr author)"
  shows "success_branch nonstr (PyDict d) =
           Inr (esc @ ''[32m'' @ quote @ '' - '' @ author @ esc @ ''[0m'')"
  using assms
  by (simp add: success_branch_def quote_expr_def author_expr_def and_then_def
      getitem_str_def getitem_int_def py_index_def add_str_def green_def fancy_add_def get_def pyfancy_def)

lemma error_branch_ok:
  assumes "map_of d ''error'' = Some (PyDict e)"
    and "map_of e ''message'' = Some (PyStr m)"
  shows "error_branch nonstr (PyDict d) = Inr (esc @ ''[31m'' @ m @ esc @ ''[0m'')"
  using assms
  by (simp add: error_branch_def and_then_def getitem_str_def red_def fancy_add_def
      get_def pyfancy_def)


lemma newline_not_in_codes:
  "newline \<notin> set esc" "newline \<notin> set ''[32m''" "newline \<notin> set ''[31m''"
  "newline \<notin> set ''[0m''" "newline \<notin> set '' - ''"
  by (simp_all add: newline_def esc_def)

lemma single_line:
  assumes "newline \<notin> set l"
  shows "line_count (l @ [newline]) = 1"
  using assms by (simp add: line_count_def count_list_0_iff)

subsection \<open>One request, to the fixed URL\<close>

text \<open>
  C7: on every run, whatever the network answers and however the run ends, the requests
  issued are exactly one GET of the literal \<open>https://quotes.rest/qod\<close>: never none, never
  a second one, never another URL.
\<close>

theorem single_request:
  "gets (qod nonstr h net) = [''https://quotes.rest/qod'']"
  using gets_qod [of nonstr h net] by (simp add: url_def)

subsection \<open>The two handled paths\<close>



text \<open>
  C2: when the status code is not 200 and the decoded body is a dict whose \<open>error\<close> is a
  dict with a str field \<open>message\<close>, standard output receives exactly that message between
  the red code and the reset code, followed by the newline of the one \<open>print\<close>; no
  exception is raised and the exit status is 0.
\<close>

theorem error_prints_red_message:
  assumes "net url = Inr res" and "status_code res \<noteq> 200"
    and "json res = Inr (PyDict d)"
    and "map_of d ''error'' = Some (PyDict e)"
    and "map_of e ''message'' = Some (PyStr m)"
  shows "stdout (qod nonstr h net) = esc @ ''[31m'' @ m @ esc @ ''[0m'' @ [newline]
         \<and> uncaught (qod nonstr h net) = None
         \<and> exit_status (qod nonstr h net) = 0"
proof -
  have "qod nonstr h net =
          \<lparr>gets = [url], stdout = (esc @ ''[31m'' @ m @ esc @ ''[0m'') @ [newline],
             uncaught = None\<rparr>"
    using assms by (simp add: qod_error [where res = res] error_branch_ok)
  then show ?thesis by (simp add: exit_status_def)
qed

theorem error_prints_red_message_witness:
  "stdout (qod strict bare_host (\<lambda>u. Inr unavailable)) =
     CHR 0x1B # ''[31mService unavailable'' @ CHR 0x1B # ''[0m'' @ [CHR 0x0A]
   \<and> exit_status (qod strict bare_host (\<lambda>u. Inr unavailable)) = 0"
  using error_prints_red_message [of "\<lambda>u. Inr unavailable" unavailable
      "[(''error'', PyDict [(''message'', PyStr ''Service unavailable'')])]"
      "[(''message'', PyStr ''Service unavailable'')]" "''Service unavailable''"
      strict bare_host]
  by (simp add: unavailable_def esc_def newline_def)

subsection \<open>Unhandled failures\<close>



text \<open>
  C4: \<open>res.json()\<close> runs before the status code is looked at. When it raises, whatever
  the status code (200 or not), that exception ends the run uncaught, nothing is written
  to standard output and the exit status is 1.
\<close>

theorem invalid_json_crashes_before_branch:
  assumes "net url = Inr res" and "json res = Inl e"
  shows "uncaught (qod nonstr h net) = Some e
         \<and> stdout (qod nonstr h net) = []
         \<and> exit_status (qod nonstr h net) = 1"
  using assms by (simp add: qod_json_failed [where res = res] exit_status_def)

theorem invalid_json_crashes_before_branch_witness:
  "uncaught (qod strict bare_host (\<lambda>u. Inr (not_json 200))) = Some JSONDecodeError
   \<and> stdout (qod strict bare_host (\<lambda>u. Inr (not_json 200))) = []
   \<and> exit_status (qod strict bare_host (\<lambda>u. Inr (not_json 200))) = 1
   \<and> uncaught (qod strict bare_host (\<lambda>u. Inr (not_json 502))) = Some JSONDecodeError
   \<and> stdout (qod strict bare_host (\<lambda>u. Inr (not_json 502))) = []
   \<and> exit_status (qod strict bare_host (\<lambda>u. Inr (not_json 502))) = 1"
  using invalid_json_crashes_before_branch [of "\<lambda>u. Inr (not_json 200)" "not_json 200"
      JSONDecodeError strict bare_host]
    invalid_json_crashes_before_branch [of "\<lambda>u. Inr (not_json 502)" "not_json 502"
      JSONDecodeError strict bare_host]
  by (simp add: not_json_def)



text \<open>
  C6: when \<open>requests.get\<close> itself raises, that exception ends the run uncaught, nothing
  is written to standard output and the exit status is 1.
\<close>

theorem request_failure_crashes:
  assumes "net url = Inl e"
  shows "uncaught (qod nonstr h net) = Some e
         \<and> stdout (qod nonstr h net) = []
         \<and> exit_status (qod nonstr h net) = 1"
  using assms by (simp add: qod_request_failed exit_status_def)

theorem request_failure_crashes_witness:
  "uncaught (qod strict bare_host refused) = Some (RequestException ''Connection refused'')
   \<and> stdout (qod strict bare_host refused) = []
   \<and> exit_status (qod strict bare_host refused) = 1"
  using request_failure_crashes [of refused "RequestException ''Connection refused''"
      strict bare_host]
  by (simp add: refused_def)

text \<open>
  C9: when the status code is 200 and \<open>contents.quotes\<close> is the empty list, the access
  of element 0 raises \<open>IndexError\<close>, uncaught: nothing is written to standard output and
  the exit status is 1.
\<close>

theorem empty_quotes_index_error:
  assumes "net url = Inr res" and "status_code res = 200"
    and "json res = Inr (PyDict d)"
    and "map_of d ''contents'' = Some (PyDict c)"
    and "map_of c ''quotes'' = Some (PyList [])"
  shows "uncaught (qod nonstr h net) = Some IndexError
         \<and> stdout (qod nonstr h net) = []
         \<and> exit_status (qod nonstr h net) = 1"
proof -
  have "success_branch nonstr (PyDict d) = Inl IndexError"
    using assms(4,5)
    by (simp add: success_branch_def quote_expr_def and_then_def getitem_str_def
        getitem_int_def py_index_def)
  then have "qod nonstr h net = \<lparr>gets = [url], stdout = [], uncaught = Some IndexError\<rparr>"
    using assms(1-3) by (simp add: qod_success [where res = res])
  then show ?thesis by (simp add: exit_status_def)
qed

theorem empty_quotes_index_error_witness:
  "uncaught (qod strict bare_host (\<lambda>u. Inr empty_quotes)) = Some IndexError
   \<and> stdout (qod strict bare_host (\<lambda>u. Inr empty_quotes)) = []
   \<and> exit_status (qod strict bare_host (\<lambda>u. Inr empty_quotes)) = 1"
  using empty_quotes_index_error [of "\<lambda>u. Inr empty_quotes" empty_quotes
      "[(''contents'', PyDict [(''quotes'', PyList [])])]" "[(''quotes'', PyList [])]"
      strict bare_host]
  by (simp add: empty_quotes_def)

subsection \<open>Lines written on the handled paths\<close>

text \<open>
  C8, as stated, fails: a quote is any JSON string and may hold a newline character. On
  the handled success path below the one \<open>print\<close> then writes two newline-terminated
  lines.
\<close>

theorem embedded_newline_two_lines:
  "status_code two_lines = 200
   \<and> uncaught (qod strict bare_host (\<lambda>u. Inr two_lines)) = None
   \<and> line_count (stdout (qod strict bare_host (\<lambda>u. Inr two_lines))) = 2"
  by (simp add: two_lines_def qod_def requests_get_def print_def success_branch_def
      quote_expr_def author_expr_def and_then_def getitem_str_def getitem_int_def py_index_def add_str_def
      green_def fancy_add_def get_def pyfancy_def esc_def newline_def line_count_def)

text \<open>
  C8, amended: on each of the two handled paths, when the printed fields (quote and author,
  or message) hold no newline character, standard output is exactly one
  newline-terminated line: a newline-free text followed by one newline.
\<close>

theorem handled_path_one_line:
  assumes "net url = Inr res" and "json res = Inr (PyDict d)"
    and "(status_code res = 200
          \<and> map_of d ''contents'' = Some (PyDict c)
          \<and> map_of c ''quotes'' = Some (PyList (PyDict q # rest))
          \<and> map_of q ''quote'' = Some (PyStr quote)
          \<and> map_of q ''author'' = Some (PyStr author)
          \<and> newline \<notin> set quote \<and> newline \<notin> set author)
       \<or> (status_code res \<noteq> 200
          \<and> map_of d ''error'' = Some (PyDict e)
          \<and> map_of e ''message'' = Some (PyStr m)
          \<and> newline \<notin> set m)"
  shows "(\<exists>line. stdout (qod nonstr h net) = line @ [newline] \<and> newline \<notin> set line)
         \<and> line_count (stdout (qod nonstr h net)) = 1"
proof -
  have "\<exists>l. stdout (qod nonstr h net) = l @ [newline] \<and> newline \<notin> set l"
    using assms(3)
  proof
    assume a: "status_code res = 200
          \<and> map_of d ''contents'' = Some (PyDict c)
          \<and> map_of c ''quotes'' = Some (PyList (PyDict q # rest))
          \<and> map_of q ''quote'' = Some (PyStr quote)
          \<and> map_of q ''author'' = Some (PyStr author)
          \<and> newline \<notin> set quote \<and> newline \<notin> set author"
    then have "stdout (qod nonstr h net) =
        (esc @ ''[32m'' @ quote @ '' - '' @ author @ esc @ ''[0m'') @ [newline]"
      using assms(1,2) by (simp add: qod_success [where res = res] success_branch_ok)
    moreover have "newline \<notin> set (esc @ ''[32m'' @ quote @ '' - '' @ author @ esc @ ''[0m'')"
      using a newline_not_in_codes by simp
    ultimately show ?thesis by blast
  next
    assume a: "status_code res \<noteq> 200
          \<and> map_of d ''error'' = Some (PyDict e)
          \<and> map_of e ''message'' = Some (PyStr m)
          \<and> newline \<notin> set m"
    then have "stdout (qod nonstr h net) = (esc @ ''[31m'' @ m @ esc @ ''[0m'') @ [newline]"
      using assms(1,2) by (simp add: qod_error [where res = res] error_branch_ok)
    moreover have "newline \<notin> set (esc @ ''[31m'' @ m @ esc @ ''[0m'')"
      using a newline_not_in_codes by simp
    ultimately show ?thesis by blast
  qed
  then obtain l where l: "stdout (qod nonstr h net) = l @ [newline]" "newline \<notin> set l"
    by blast
  have "line_count (stdout (qod nonstr h net)) = 1"
    by (simp only: l(1) single_line [OF l(2)])
  then show ?thesis using l by blast
qed

theorem handled_path_one_line_witness:
  "(\<exists>line. stdout (qod strict bare_host (\<lambda>u. Inr be_yourself)) = line @ [newline]
            \<and> newline \<notin> set line)
   \<and> line_count (stdout (qod strict bare_host (\<lambda>u. Inr be_yourself))) = 1
   \<and> (\<exists>line. stdout (qod strict bare_host (\<lambda>u. Inr unavailable)) = line @ [newline]
            \<and> newline \<notin> set line)
   \<and> line_count (stdout (qod strict bare_host (\<lambda>u. Inr unavailable))) = 1"
proof -
  have a: "(\<exists>line. stdout (qod strict bare_host (\<lambda>u. Inr be_yourself)) = line @ [newline]
            \<and> newline \<notin> set line)
      \<and> line_count (stdout (qod strict bare_host (\<lambda>u. Inr be_yourself))) = 1"
    using handled_path_one_line [where net = "\<lambda>u. Inr be_yourself" and res = be_yourself
      and d = "[(''contents'', PyDict [(''quotes'',
               PyList [PyDict [(''quote'', PyStr ''Be yourself''),
                               (''author'', PyStr ''Oscar Wilde'')]])])]"
      and c = "[(''quotes'', PyList [PyDict [(''quote'', PyStr ''Be yourself''),
                               (''author'', PyStr ''Oscar Wilde'')]])]"
      and q = "[(''quote'', PyStr ''Be yourself''), (''author'', PyStr ''Oscar Wilde'')]"
      and rest = "[]" and quote = "''Be yourself''" and author = "''Oscar Wilde''"
      and nonstr = strict and h = bare_host]
    by (simp add: be_yourself_def newline_def)
  have b: "(\<exists>line. stdout (qod strict bare_host (\<lambda>u. Inr unavailable)) = line @ [newline]
            \<and> newline \<notin> set line)
      \<and> line_count (stdout (qod strict bare_host (\<lambda>u. Inr unavailable))) = 1"
    using handled_path_one_line [where net = "\<lambda>u. Inr unavailable" and res = unavailable
      and d = "[(''error'', PyDict [(''message'', PyStr ''Service unavailable'')])]"
      and e = "[(''message'', PyStr ''Service unavailable'')]"
      and m = "''Service unavailable''" and nonstr = strict and h = bare_host]
    by (simp add: unavailable_def newline_def)
  show ?thesis using a b by simp
qed

end
